theory Spec2Isabelle
  imports Complex_Main
begin

section \<open>Values and documents\<close>

text \<open>
  The values a parsed JSON body can hold, together with \<open>undefined\<close>, which is what
  JavaScript yields when a property is absent. Numbers are used as payload only (they are
  stored and compared, never computed with), so they are modelled as rationals.
\<close>

datatype jsval =
    JUndefined
  | JNull
  | JBool bool
  | JNum rat
  | JStr string
  | JArr "jsval list"
  | JObj "(string \<times> jsval) list"

text \<open>JavaScript truthiness: what \<open>!v\<close> tests in the handlers.\<close>

fun truthy :: "jsval \<Rightarrow> bool" where
  "truthy JUndefined = False"
| "truthy JNull = False"
| "truthy (JBool b) = b"
| "truthy (JNum n) = (n \<noteq> 0)"
| "truthy (JStr s) = (s \<noteq> [])"
| "truthy (JArr xs) = True"
| "truthy (JObj kvs) = True"

text \<open>
  Reading a property of a parsed JSON object, as the destructuring
  \<open>const { symbol, name, price, change } = req.body\<close> does: an absent key gives
  \<open>undefined\<close>. With \<open>express.json()\<close> installed \<open>req.body\<close> is always an object,
  given here by its own properties, each key listed once.
\<close>

definition field :: "(string \<times> jsval) list \<Rightarrow> string \<Rightarrow> jsval" where
  "field obj k = (case map_of obj k of None \<Rightarrow> JUndefined | Some v \<Rightarrow> v)"

text \<open>
  \<open>String.prototype.toUpperCase\<close>. On a string of ASCII characters it replaces each of
  \<open>a..z\<close> by its capital (bit 5 of the character cleared) and keeps every other
  character. On a string with a character outside ASCII the result is that of the
  engine's Unicode case mapping, which can also change the length of the string; that
  mapping is no part of the repository and is the parameter \<open>uc\<close>.
\<close>

definition upper_char :: "char \<Rightarrow> char" where
  "upper_char c =
     (let n = (of_char c :: nat) in
      if 97 \<le> n \<and> n \<le> 122
      then (case c of Char b0 b1 b2 b3 b4 b5 b6 b7 \<Rightarrow> Char b0 b1 b2 b3 b4 False b6 b7)
      else c)"

definition is_ascii :: "string \<Rightarrow> bool" where
  "is_ascii s = list_all (\<lambda>c. (of_char c :: nat) < 128) s"

definition toUpperCase :: "(string \<Rightarrow> string) \<Rightarrow> string \<Rightarrow> string" where
  "toUpperCase uc s = (if is_ascii s then map upper_char s else uc s)"

text \<open>
  Modelled from the spec: the \<open>Stock\<close> model (\<open>models/Stock.js\<close>) is not among the
  sources. The spec's data model gives a StockRecord the fields \<open>symbol\<close>, \<open>name\<close>,
  \<open>price\<close>, \<open>change\<close> and the timestamp \<open>lastUpdated\<close>, "set on every create or
  update". The field values are kept as the handlers pass them (the conversions a schema
  applies to a value of another type are left out); \<open>lastUpdated\<close> is the reading of
  \<open>Date.now()\<close> in milliseconds.
\<close>

record stock =
  symbol :: jsval
  name :: jsval
  price :: jsval
  change :: jsval
  lastUpdated :: int

text \<open>
  Modelled from the spec: the store is "a document collection keyed by ticker symbol",
  listed in insertion order, that fails with \<open>StoreUnavailable\<close> when the database
  connection is down.
\<close>

record store =
  docs :: "stock list"
  connected :: bool

text \<open>What a handler's \<open>try\<close> block can throw.\<close>

datatype error =
    StoreUnavailable
  | ValidationError
  | UpstreamUnavailable
  | TypeError

section \<open>Store primitives\<close>

fun update_first :: "('a \<Rightarrow> bool) \<Rightarrow> ('a \<Rightarrow> 'a) \<Rightarrow> 'a list \<Rightarrow> 'a list" where
  "update_first P f [] = []"
| "update_first P f (x # xs) = (if P x then f x # xs else x # update_first P f xs)"

fun delete_first :: "('a \<Rightarrow> bool) \<Rightarrow> 'a list \<Rightarrow> 'a list" where
  "delete_first P [] = []"
| "delete_first P (x # xs) = (if P x then xs else x # delete_first P xs)"

text \<open>
  Modelled from the spec: \<open>Stock.find()\<close>, the spec's \<open>listAll\<close>.
\<close>

definition find_all :: "store \<Rightarrow> error + stock list" where
  "find_all st = (if connected st then Inr (docs st) else Inl StoreUnavailable)"

text \<open>
  Modelled from the spec: \<open>Stock.findOne({ symbol })\<close>, the spec's \<open>findBySymbol\<close>:
  "the matching StockRecord or not-found sentinel; symbol is case-normalized by the caller".
\<close>

definition findOne :: "jsval \<Rightarrow> store \<Rightarrow> error + stock option" where
  "findOne smb st =
     (if connected st then Inr (find (\<lambda>d. symbol d = smb) (docs st))
      else Inl StoreUnavailable)"

text \<open>
  Modelled from the spec: \<open>stock.save()\<close> on a document obtained from \<open>findOne\<close> and
  then modified. Saving runs the validation of the schema in \<open>models/Stock.js\<close>; the
  schema is not among the sources, so its verdict on a document is the parameter \<open>V\<close>.
  The document written is the one that was found: the first with its symbol.
\<close>

definition save_existing :: "(stock \<Rightarrow> bool) \<Rightarrow> stock \<Rightarrow> store \<Rightarrow> error + store" where
  "save_existing V d st =
     (if \<not> V d then Inl ValidationError
      else if \<not> connected st then Inl StoreUnavailable
      else Inr (st\<lparr>docs := update_first (\<lambda>x. symbol x = symbol d) (\<lambda>x. d) (docs st)\<rparr>))"

text \<open>
  Modelled from the spec: \<open>stock.save()\<close> on a document made by \<open>new Stock(...)\<close>: the
  document is added at the end of the collection.
\<close>

definition save_new :: "(stock \<Rightarrow> bool) \<Rightarrow> stock \<Rightarrow> store \<Rightarrow> error + store" where
  "save_new V d st =
     (if \<not> V d then Inl ValidationError
      else if \<not> connected st then Inl StoreUnavailable
      else Inr (st\<lparr>docs := docs st @ [d]\<rparr>))"

text \<open>
  Modelled from the spec: \<open>Stock.findOneAndUpdate(filter, update, { new: true })\<close>, the
  spec's \<open>updateFields\<close>: "locate by symbol; if absent, fails with NotFound; else overwrite
  price, change, refresh lastUpdated, return updated record". Absence is the result
  \<open>None\<close>, which the handler turns into 404.
\<close>

definition findOneAndUpdate ::
  "jsval \<Rightarrow> (stock \<Rightarrow> stock) \<Rightarrow> store \<Rightarrow> error + (stock option \<times> store)" where
  "findOneAndUpdate smb upd st =
     (if \<not> connected st then Inl StoreUnavailable
      else (case find (\<lambda>d. symbol d = smb) (docs st) of
              None \<Rightarrow> Inr (None, st)
            | Some d \<Rightarrow>
                Inr (Some (upd d),
                     st\<lparr>docs := update_first (\<lambda>x. symbol x = smb) upd (docs st)\<rparr>)))"

text \<open>
  Modelled from the spec: \<open>Stock.findOneAndDelete(filter)\<close>, the spec's
  \<open>deleteBySymbol\<close>: "locate and remove; fails with NotFound if absent".
\<close>

definition findOneAndDelete :: "jsval \<Rightarrow> store \<Rightarrow> error + (stock option \<times> store)" where
  "findOneAndDelete smb st =
     (if \<not> connected st then Inl StoreUnavailable
      else (case find (\<lambda>d. symbol d = smb) (docs st) of
              None \<Rightarrow> Inr (None, st)
            | Some d \<Rightarrow>
                Inr (Some d, st\<lparr>docs := delete_first (\<lambda>x. symbol x = smb) (docs st)\<rparr>)))"

section \<open>HTTP responses\<close>

datatype body =
    Records "stock list"
  | Record stock
  | Error string
  | Message string

type_synonym response = "nat \<times> body"

definition status :: "response \<times> store \<Rightarrow> nat" where
  "status r = fst (fst r)"

definition payload :: "response \<times> store \<Rightarrow> body" where
  "payload r = snd (fst r)"

section \<open>Route handlers\<close>

text \<open>
  Each handler is its \<open>try\<close> block, returning the thrown error as a value, followed by
  the \<open>catch\<close> that turns any error into a 500 response and leaves the store as it was.
  \<open>now\<close> is the value \<open>Date.now()\<close> returns during the request, and \<open>uc\<close> the
  engine's case mapping that \<open>toUpperCase\<close> uses on a path parameter outside ASCII.
\<close>

subsection \<open>GET /api/stocks\<close>

definition get_stocks :: "store \<Rightarrow> response \<times> store" where
  "get_stocks st =
     (case find_all st of
        Inl e \<Rightarrow> ((500, Error ''Server error''), st)
      | Inr stocks \<Rightarrow> ((200, Records stocks), st))"

subsection \<open>POST /api/stocks\<close>

text \<open>
  The validation of line 41:
  \<open>!symbol || !name || price === undefined || change === undefined\<close>.
\<close>

definition post_missing :: "(string \<times> jsval) list \<Rightarrow> bool" where
  "post_missing b =
     (\<not> truthy (field b ''symbol'') \<or> \<not> truthy (field b ''name'')
      \<or> field b ''price'' = JUndefined \<or> field b ''change'' = JUndefined)"

text \<open>
  The body of the handler. Modelled from the spec: \<open>new Stock({ symbol, name, price,
  change })\<close> leaves \<open>lastUpdated\<close> to the schema of \<open>models/Stock.js\<close>, which is
  not among the sources; the spec has a new record created "with lastUpdated set to now".
\<close>

definition post_try ::
  "(stock \<Rightarrow> bool) \<Rightarrow> int \<Rightarrow> (string \<times> jsval) list \<Rightarrow> store \<Rightarrow> error + (response \<times> store)" where
  "post_try V now b st =
     (if post_missing b then Inr ((400, Error ''Missing required fields''), st)
      else
        (case findOne (field b ''symbol'') st of
           Inl e \<Rightarrow> Inl e
         | Inr (Some d) \<Rightarrow>
             (let d' = d\<lparr>price := field b ''price'', change := field b ''change'',
                         lastUpdated := now\<rparr>
              in case save_existing V d' st of
                   Inl e \<Rightarrow> Inl e
                 | Inr st' \<Rightarrow> Inr ((200, Record d'), st'))
         | Inr None \<Rightarrow>
             (let d = \<lparr>symbol = field b ''symbol'', name = field b ''name'',
                       price = field b ''price'', change = field b ''change'',
                       lastUpdated = now\<rparr>
              in case save_new V d st of
                   Inl e \<Rightarrow> Inl e
                 | Inr st' \<Rightarrow> Inr ((201, Record d), st'))))"

definition post_stocks ::
  "(stock \<Rightarrow> bool) \<Rightarrow> int \<Rightarrow> (string \<times> jsval) list \<Rightarrow> store \<Rightarrow> response \<times> store" where
  "post_stocks V now b st =
     (case post_try V now b st of
        Inl e \<Rightarrow> ((500, Error ''Server error''), st)
      | Inr r \<Rightarrow> r)"

subsection \<open>PUT /api/stocks/:symbol\<close>

definition put_try ::
  "(string \<Rightarrow> string) \<Rightarrow> int \<Rightarrow> string \<Rightarrow> (string \<times> jsval) list \<Rightarrow> store
     \<Rightarrow> error + (response \<times> store)" where
  "put_try uc now param b st =
     (if field b ''price'' = JUndefined \<or> field b ''change'' = JUndefined
      then Inr ((400, Error ''Missing price or change fields''), st)
      else
        (case findOneAndUpdate (JStr (toUpperCase uc param))
                (\<lambda>d. d\<lparr>price := field b ''price'', change := field b ''change'',
                        lastUpdated := now\<rparr>) st of
           Inl e \<Rightarrow> Inl e
         | Inr (None, st') \<Rightarrow> Inr ((404, Error ''Stock not found''), st')
         | Inr (Some d, st') \<Rightarrow> Inr ((200, Record d), st')))"

definition put_stock ::
  "(string \<Rightarrow> string) \<Rightarrow> int \<Rightarrow> string \<Rightarrow> (string \<times> jsval) list \<Rightarrow> store
     \<Rightarrow> response \<times> store" where
  "put_stock uc now param b st =
     (case put_try uc now param b st of
        Inl e \<Rightarrow> ((500, Error ''Server error''), st)
      | Inr r \<Rightarrow> r)"

subsection \<open>DELETE /api/stocks/:symbol\<close>

definition delete_try ::
  "(string \<Rightarrow> string) \<Rightarrow> string \<Rightarrow> store \<Rightarrow> error + (response \<times> store)" where
  "delete_try uc param st =
     (case findOneAndDelete (JStr (toUpperCase uc param)) st of
        Inl e \<Rightarrow> Inl e
      | Inr (None, st') \<Rightarrow> Inr ((404, Error ''Stock not found''), st')
      | Inr (Some d, st') \<Rightarrow>
          Inr ((200, Message (''Stock '' @ toUpperCase uc param @ '' deleted successfully'')),
               st'))"

definition delete_stock ::
  "(string \<Rightarrow> string) \<Rightarrow> string \<Rightarrow> store \<Rightarrow> response \<times> store" where
  "delete_stock uc param st =
     (case delete_try uc param st of
        Inl e \<Rightarrow> ((500, Error ''Server error''), st)
      | Inr r \<Rightarrow> r)"

subsection \<open>GET /api/search/:symbol\<close>

text \<open>
  \<open>const { name, price, change } = apiResponse.data\<close>: destructuring \<open>undefined\<close> or
  \<open>null\<close> throws a TypeError; an object gives its properties, \<open>undefined\<close> for the
  absent ones; a string, number, boolean or array has none of the three properties.
\<close>

definition destructure :: "jsval \<Rightarrow> error + (jsval \<times> jsval \<times> jsval)" where
  "destructure v =
     (case v of
        JUndefined \<Rightarrow> Inl TypeError
      | JNull \<Rightarrow> Inl TypeError
      | JObj kvs \<Rightarrow> Inr (field kvs ''name'', field kvs ''price'', field kvs ''change'')
      | _ \<Rightarrow> Inr (JUndefined, JUndefined, JUndefined))"

text \<open>
  The quote fetch, lines 119 and 120. \<open>axios_get\<close> is the external service seen through
  \<open>axios.get\<close>: \<open>None\<close> when the promise is rejected (network error, timeout, a
  status outside 2xx), otherwise the \<open>data\<close> of the response.
\<close>

definition fetch_quote ::
  "(string \<Rightarrow> jsval option) \<Rightarrow> string \<Rightarrow> error + (jsval \<times> jsval \<times> jsval)" where
  "fetch_quote axios_get smb =
     (case axios_get (''https://api.example.com/stocks/'' @ smb) of
        None \<Rightarrow> Inl UpstreamUnavailable
      | Some v \<Rightarrow> destructure v)"

definition search_try ::
  "(string \<Rightarrow> string) \<Rightarrow> (stock \<Rightarrow> bool) \<Rightarrow> (string \<Rightarrow> jsval option) \<Rightarrow> int \<Rightarrow> string
     \<Rightarrow> store \<Rightarrow> error + (response \<times> store)" where
  "search_try uc V axios_get now param st =
     (let smb = toUpperCase uc param in
      case fetch_quote axios_get smb of
        Inl e \<Rightarrow> Inl e
      | Inr (nm, pr, ch) \<Rightarrow>
          (case findOne (JStr smb) st of
             Inl e \<Rightarrow> Inl e
           | Inr (Some d) \<Rightarrow>
               (let d' = d\<lparr>price := pr, change := ch, lastUpdated := now\<rparr>
                in case save_existing V d' st of
                     Inl e \<Rightarrow> Inl e
                   | Inr st' \<Rightarrow> Inr ((200, Record d'), st'))
           | Inr None \<Rightarrow>
               (let d = \<lparr>symbol = JStr smb, name = nm, price = pr, change = ch,
                         lastUpdated = now\<rparr>
                in case save_new V d st of
                     Inl e \<Rightarrow> Inl e
                   | Inr st' \<Rightarrow> Inr ((200, Record d), st'))))"

definition search_stock ::
  "(string \<Rightarrow> string) \<Rightarrow> (stock \<Rightarrow> bool) \<Rightarrow> (string \<Rightarrow> jsval option) \<Rightarrow> int \<Rightarrow> string
     \<Rightarrow> store \<Rightarrow> response \<times> store" where
  "search_stock uc V axios_get now param st =
     (case search_try uc V axios_get now param st of
        Inl e \<Rightarrow> ((500, Error ''Stock not found or API error''), st)
      | Inr r \<Rightarrow> r)"

section \<open>Casings of a symbol\<close>





section \<open>Example data\<close>

text \<open>
  Modelled from the spec: a schema for the examples, since \<open>models/Stock.js\<close> is not
  among the sources. It accepts a document whose fields have the types of the spec's data
  model: \<open>symbol\<close> and \<open>name\<close> strings, \<open>price\<close> and \<open>change\<close> numbers.
\<close>

fun is_string :: "jsval \<Rightarrow> bool" where
  "is_string (JStr s) = True"
| "is_string v = False"

fun is_number :: "jsval \<Rightarrow> bool" where
  "is_number (JNum n) = True"
| "is_number v = False"

definition stock_schema :: "stock \<Rightarrow> bool" where
  "stock_schema d =
     (is_string (symbol d) \<and> is_string (name d) \<and> is_number (price d) \<and> is_number (change d))"

text \<open>The request bodies and the store of the spec's scenario.\<close>

definition apple_body :: "(string \<times> jsval) list" where
  "apple_body =
     [(''symbol'', JStr ''AAPL''), (''name'', JStr ''Apple''),
      (''price'', JNum 150), (''change'', JNum (6 / 5))]"

definition apple_renamed_body :: "(string \<times> jsval) list" where
  "apple_renamed_body =
     [(''symbol'', JStr ''AAPL''), (''name'', JStr ''Apple Inc.''),
      (''price'', JNum 155), (''change'', JNum (- 1 / 2))]"

definition empty_symbol_body :: "(string \<times> jsval) list" where
  "empty_symbol_body =
     [(''symbol'', JStr []), (''name'', JStr ''Apple''),
      (''price'', JNum 150), (''change'', JNum (6 / 5))]"

definition zero_price_body :: "(string \<times> jsval) list" where
  "zero_price_body =
     [(''symbol'', JStr ''AAPL''), (''name'', JStr ''Apple''),
      (''price'', JNum 0), (''change'', JNum 0)]"

definition update_body :: "(string \<times> jsval) list" where
  "update_body = [(''price'', JNum 155), (''change'', JNum (- 1 / 2))]"

definition apple_doc :: stock where
  "apple_doc =
     \<lparr>symbol = JStr ''AAPL'', name = JStr ''Apple'', price = JNum 150,
      change = JNum (6 / 5), lastUpdated = 1000\<rparr>"

definition empty_store :: store where
  "empty_store = \<lparr>docs = [], connected = True\<rparr>"

definition apple_store :: store where
  "apple_store = \<lparr>docs = [apple_doc], connected = True\<rparr>"

text \<open>An external service that knows AAPL only, and answers without the \<open>name\<close>.\<close>

definition quote_without_name :: "string \<Rightarrow> jsval option" where
  "quote_without_name url =
     (if url = ''https://api.example.com/stocks/AAPL''
      then Some (JObj [(''price'', JNum 155), (''change'', JNum (- 1 / 2))])
      else None)"

text \<open>An external service that knows AAPL only, and answers with all three fields.\<close>

definition quote_full :: "string \<Rightarrow> jsval option" where
  "quote_full url =
     (if url = ''https://api.example.com/stocks/AAPL''
      then Some (JObj [(''name'', JStr ''Apple Inc.''), (''price'', JNum 155),
                       (''change'', JNum (- 1 / 2))])
      else None)"

text \<open>
  A Unicode case mapping for the examples. Their path parameters are ASCII strings, on
  which the mapping is not consulted.
\<close>

definition plain_upper :: "string \<Rightarrow> string" where
  "plain_upper s = s"

text \<open>An external service that is down.\<close>

definition quote_down :: "string \<Rightarrow> jsval option" where
  "quote_down url = None"

section \<open>Unfolding rules\<close>

lemmas example_defs = stock_schema_def apple_body_def apple_renamed_body_def empty_symbol_body_def
  zero_price_body_def update_body_def apple_doc_def empty_store_def apple_store_def
  quote_without_name_def quote_full_def quote_down_def plain_upper_def

lemmas handler_defs = post_stocks_def post_try_def post_missing_def put_stock_def put_try_def
  delete_stock_def delete_try_def search_stock_def search_try_def fetch_quote_def destructure_def
  findOne_def save_existing_def save_new_def findOneAndUpdate_def findOneAndDelete_def
  status_def payload_def field_def toUpperCase_def is_ascii_def upper_char_def

section \<open>Facts about the store primitives\<close>

lemma find_Some_holds: "find P xs = Some d \<Longrightarrow> P d"
  by (induction xs) (auto split: if_splits)

lemma find_Some_mem: "find P xs = Some d \<Longrightarrow> d \<in> set xs"
  by (induction xs) (auto split: if_splits)

lemma find_None_all: "find P xs = None \<longleftrightarrow> (\<forall>x\<in>set xs. \<not> P x)"
  by (induction xs) auto

lemma length_update_first: "length (update_first P f xs) = length xs"
  by (induction xs) auto

lemma find_update_first: "find P xs = Some d \<Longrightarrow> P (f d) \<Longrightarrow> find P (update_first P f xs) = Some (f d)"
  by (induction xs) (auto split: if_splits)

lemma update_first_agree:
  "find P xs = Some d \<Longrightarrow> f d = g d \<Longrightarrow> update_first P f xs = update_first P g xs"
  by (induction xs) (auto split: if_splits)

lemma update_first_twice:
  "find P xs = Some d \<Longrightarrow> P (f d) \<Longrightarrow>
   update_first P g (update_first P f xs) = update_first P (\<lambda>x. g (f x)) xs"
  by (induction xs) (auto split: if_splits)

lemma find_append_new: "find P xs = None \<Longrightarrow> P d \<Longrightarrow> find P (xs @ [d]) = Some d"
  by (induction xs) (auto split: if_splits)

lemma update_first_append_new:
  "find P xs = None \<Longrightarrow> P d \<Longrightarrow> update_first P f (xs @ [d]) = xs @ [f d]"
  by (induction xs) (auto split: if_splits)

lemma length_delete_first: "find P xs = Some d \<Longrightarrow> Suc (length (delete_first P xs)) = length xs"
  by (induction xs) (auto split: if_splits)

lemma delete_first_subset: "set (delete_first P xs) \<subseteq> set xs"
  by (induction xs) auto

lemma delete_first_distinct:
  "distinct (map f xs) \<Longrightarrow> \<forall>x\<in>set (delete_first (\<lambda>x. f x = k) xs). f x \<noteq> k"
proof (induction xs)
  case Nil
  then show ?case by simp
next
  case (Cons a xs)
  show ?case
  proof (cases "f a = k")
    case True
    with Cons.prems show ?thesis by (auto simp: image_iff)
  next
    case False
    with Cons show ?thesis by auto
  qed
qed

section \<open>The handlers, case by case\<close>

lemma post_stocks_missing:
  "post_missing b \<Longrightarrow> post_stocks V now b st = ((400, Error ''Missing required fields''), st)"
  by (simp add: post_stocks_def post_try_def)

lemma post_stocks_down:
  "\<not> post_missing b \<Longrightarrow> \<not> connected st \<Longrightarrow>
   post_stocks V now b st = ((500, Error ''Server error''), st)"
  by (simp add: post_stocks_def post_try_def findOne_def)

lemma post_stocks_found:
  assumes "\<not> post_missing b" and "connected st"
    and "find (\<lambda>x. symbol x = field b ''symbol'') (docs st) = Some d"
  shows "post_stocks V now b st =
     (let d' = d\<lparr>price := field b ''price'', change := field b ''change'', lastUpdated := now\<rparr>
      in if V d'
         then ((200, Record d'),
               st\<lparr>docs := update_first (\<lambda>x. symbol x = field b ''symbol'') (\<lambda>x. d') (docs st)\<rparr>)
         else ((500, Error ''Server error''), st))"
proof -
  have "symbol d = field b ''symbol''"
    using assms(3) by (rule find_Some_holds)
  with assms show ?thesis
    by (simp add: post_stocks_def post_try_def findOne_def save_existing_def Let_def)
qed

lemma post_stocks_not_found:
  assumes "\<not> post_missing b" and "connected st"
    and "find (\<lambda>x. symbol x = field b ''symbol'') (docs st) = None"
  shows "post_stocks V now b st =
     (let d = \<lparr>symbol = field b ''symbol'', name = field b ''name'', price = field b ''price'',
               change = field b ''change'', lastUpdated = now\<rparr>
      in if V d then ((201, Record d), st\<lparr>docs := docs st @ [d]\<rparr>)
         else ((500, Error ''Server error''), st))"
  using assms by (simp add: post_stocks_def post_try_def findOne_def save_new_def Let_def)

lemma put_stock_missing:
  "field b ''price'' = JUndefined \<or> field b ''change'' = JUndefined \<Longrightarrow>
   put_stock uc now param b st = ((400, Error ''Missing price or change fields''), st)"
  by (auto simp add: put_stock_def put_try_def)

lemma put_stock_down:
  "field b ''price'' \<noteq> JUndefined \<Longrightarrow> field b ''change'' \<noteq> JUndefined \<Longrightarrow> \<not> connected st \<Longrightarrow>
   put_stock uc now param b st = ((500, Error ''Server error''), st)"
  by (simp add: put_stock_def put_try_def findOneAndUpdate_def)

lemma put_stock_found:
  assumes "field b ''price'' \<noteq> JUndefined" and "field b ''change'' \<noteq> JUndefined"
    and "connected st"
    and "find (\<lambda>x. symbol x = JStr (toUpperCase uc param)) (docs st) = Some d"
  shows "put_stock uc now param b st =
     ((200, Record (d\<lparr>price := field b ''price'', change := field b ''change'', lastUpdated := now\<rparr>)),
      st\<lparr>docs := update_first (\<lambda>x. symbol x = JStr (toUpperCase uc param))
          (\<lambda>x. x\<lparr>price := field b ''price'', change := field b ''change'', lastUpdated := now\<rparr>)
          (docs st)\<rparr>)"
  using assms by (simp add: put_stock_def put_try_def findOneAndUpdate_def)

lemma put_stock_not_found:
  assumes "field b ''price'' \<noteq> JUndefined" and "field b ''change'' \<noteq> JUndefined"
    and "connected st"
    and "find (\<lambda>x. symbol x = JStr (toUpperCase uc param)) (docs st) = None"
  shows "put_stock uc now param b st = ((404, Error ''Stock not found''), st)"
  using assms by (simp add: put_stock_def put_try_def findOneAndUpdate_def)

lemma delete_stock_down:
  "\<not> connected st \<Longrightarrow> delete_stock uc param st = ((500, Error ''Server error''), st)"
  by (simp add: delete_stock_def delete_try_def findOneAndDelete_def)

lemma delete_stock_found:
  assumes "connected st"
    and "find (\<lambda>x. symbol x = JStr (toUpperCase uc param)) (docs st) = Some d"
  shows "delete_stock uc param st =
     ((200, Message (''Stock '' @ toUpperCase uc param @ '' deleted successfully'')),
      st\<lparr>docs := delete_first (\<lambda>x. symbol x = JStr (toUpperCase uc param)) (docs st)\<rparr>)"
  using assms by (simp add: delete_stock_def delete_try_def findOneAndDelete_def)

lemma delete_stock_not_found:
  assumes "connected st"
    and "find (\<lambda>x. symbol x = JStr (toUpperCase uc param)) (docs st) = None"
  shows "delete_stock uc param st = ((404, Error ''Stock not found''), st)"
  using assms by (simp add: delete_stock_def delete_try_def findOneAndDelete_def)

lemma search_stock_fetch_failed:
  "fetch_quote ax (toUpperCase uc param) = Inl e \<Longrightarrow>
   search_stock uc V ax now param st = ((500, Error ''Stock not found or API error''), st)"
  by (simp add: search_stock_def search_try_def)

lemma search_stock_down:
  "\<not> connected st \<Longrightarrow>
   search_stock uc V ax now param st = ((500, Error ''Stock not found or API error''), st)"
  by (cases "fetch_quote ax (toUpperCase uc param)")
     (auto simp add: search_stock_def search_try_def findOne_def)

lemma search_stock_found:
  assumes "fetch_quote ax (toUpperCase uc param) = Inr (nm, pr, ch)" and "connected st"
    and "find (\<lambda>x. symbol x = JStr (toUpperCase uc param)) (docs st) = Some d"
  shows "search_stock uc V ax now param st =
     (let d' = d\<lparr>price := pr, change := ch, lastUpdated := now\<rparr>
      in if V d'
         then ((200, Record d'),
               st\<lparr>docs := update_first (\<lambda>x. symbol x = JStr (toUpperCase uc param)) (\<lambda>x. d') (docs st)\<rparr>)
         else ((500, Error ''Stock not found or API error''), st))"
proof -
  have "symbol d = JStr (toUpperCase uc param)"
    using assms(3) by (rule find_Some_holds)
  with assms show ?thesis
    by (simp add: search_stock_def search_try_def findOne_def save_existing_def Let_def)
qed

lemma search_stock_not_found:
  assumes "fetch_quote ax (toUpperCase uc param) = Inr (nm, pr, ch)" and "connected st"
    and "find (\<lambda>x. symbol x = JStr (toUpperCase uc param)) (docs st) = None"
  shows "search_stock uc V ax now param st =
     (let d = \<lparr>symbol = JStr (toUpperCase uc param), name = nm, price = pr, change = ch,
               lastUpdated = now\<rparr>
      in if V d then ((200, Record d), st\<lparr>docs := docs st @ [d]\<rparr>)
         else ((500, Error ''Stock not found or API error''), st))"
  using assms by (simp add: search_stock_def search_try_def findOne_def save_new_def Let_def)

lemma map_update_first_keeps:
  "(\<And>x. P x \<Longrightarrow> g (f x) = g x) \<Longrightarrow> map g (update_first P f xs) = map g xs"
  by (induction xs) auto

lemma distinct_delete_first: "distinct (map g xs) \<Longrightarrow> distinct (map g (delete_first P xs))"
proof (induction xs)
  case Nil
  then show ?case by simp
next
  case (Cons a xs)
  have "g ` set (delete_first P xs) \<subseteq> g ` set xs"
    using delete_first_subset [of P xs] by auto
  with Cons show ?case by auto
qed

section \<open>POST /api/stocks: the update of an existing record\<close>

text \<open>
  Against C1 as stated: the store holds AAPL under the name "Apple"; a POST for AAPL with
  the name "Apple Inc." answers with a record that is still named "Apple". The update
  branch (lines 50 to 52) assigns \<open>price\<close>, \<open>change\<close> and \<open>lastUpdated\<close> only.
\<close>

theorem post_existing_name_counterexample:
  "field apple_renamed_body ''name'' = JStr ''Apple Inc.'' \<and>
   payload (post_stocks stock_schema 2000 apple_renamed_body apple_store) =
     Record \<lparr>symbol = JStr ''AAPL'', name = JStr ''Apple'', price = JNum 155,
             change = JNum (- 1 / 2), lastUpdated = 2000\<rparr>"
  by (simp add: handler_defs example_defs Let_def)

text \<open>
  C1, amended: for a POST whose body passes the validation, on a symbol that already has a
  record \<open>d\<close> in a connected store, and whose updated document the schema accepts, the
  handler overwrites the record's \<open>price\<close> and \<open>change\<close> with the request-body values,
  sets \<open>lastUpdated\<close> to the current time, keeps the stored \<open>symbol\<close> and \<open>name\<close>,
  writes the record in place of the old one and returns it with status 200.
\<close>

theorem post_existing_updates:
  assumes "truthy (field b ''symbol'')" and "truthy (field b ''name'')"
    and "field b ''price'' \<noteq> JUndefined" and "field b ''change'' \<noteq> JUndefined"
    and "connected st"
    and "find (\<lambda>x. symbol x = field b ''symbol'') (docs st) = Some d"
    and "V \<lparr>symbol = symbol d, name = name d, price = field b ''price'',
            change = field b ''change'', lastUpdated = now\<rparr>"
  shows "post_stocks V now b st =
     ((200, Record \<lparr>symbol = symbol d, name = name d, price = field b ''price'',
                    change = field b ''change'', lastUpdated = now\<rparr>),
      st\<lparr>docs := update_first (\<lambda>x. symbol x = field b ''symbol'')
          (\<lambda>x. \<lparr>symbol = symbol d, name = name d, price = field b ''price'',
                 change = field b ''change'', lastUpdated = now\<rparr>) (docs st)\<rparr>)"
proof -
  have eq: "d\<lparr>price := field b ''price'', change := field b ''change'', lastUpdated := now\<rparr> =
      \<lparr>symbol = symbol d, name = name d, price = field b ''price'',
       change = field b ''change'', lastUpdated = now\<rparr>"
    by (cases d) simp
  have "\<not> post_missing b"
    using assms(1-4) by (simp add: post_missing_def)
  from post_stocks_found [OF this assms(5,6), of V now] assms(7) show ?thesis
    by (simp add: Let_def eq)
qed

text \<open>C1, amended, on the store that holds AAPL: a POST with price 0 and change 0.\<close>

theorem post_existing_updates_witness:
  "post_stocks stock_schema 3000 zero_price_body apple_store =
     ((200, Record \<lparr>symbol = JStr ''AAPL'', name = JStr ''Apple'', price = JNum 0,
                    change = JNum 0, lastUpdated = 3000\<rparr>),
      \<lparr>docs = [\<lparr>symbol = JStr ''AAPL'', name = JStr ''Apple'', price = JNum 0,
                change = JNum 0, lastUpdated = 3000\<rparr>], connected = True\<rparr>)"
  using post_existing_updates [of zero_price_body apple_store apple_doc stock_schema 3000]
  by (simp add: example_defs field_def)

section \<open>Symbol lookup of PUT, DELETE and search\<close>














section \<open>POST /api/stocks: the validation\<close>

text \<open>
  Against C4 as stated: a body that holds all four fields, with the empty string as
  \<open>symbol\<close>, is answered with 400 although no field is missing from it.
\<close>

theorem post_400_missing_counterexample:
  "field empty_symbol_body ''symbol'' = JStr [] \<and>
   field empty_symbol_body ''name'' = JStr ''Apple'' \<and>
   field empty_symbol_body ''price'' = JNum 150 \<and>
   field empty_symbol_body ''change'' = JNum (6 / 5) \<and>
   status (post_stocks stock_schema 1000 empty_symbol_body empty_store) = 400"
  by (simp add: handler_defs example_defs)

text \<open>
  C4, amended: POST /api/stocks returns 400 if and only if \<open>symbol\<close> or \<open>name\<close> is
  missing or falsy (the empty string, 0, false, null) or \<open>price\<close> or \<open>change\<close> is
  undefined; \<open>price\<close> and \<open>change\<close> count as present whenever they are defined,
  including falsy values such as 0.
\<close>

theorem post_400_iff:
  "status (post_stocks V now b st) = 400 \<longleftrightarrow>
     (\<not> truthy (field b ''symbol'') \<or> \<not> truthy (field b ''name'')
      \<or> field b ''price'' = JUndefined \<or> field b ''change'' = JUndefined)"
  by (simp add: post_stocks_def post_try_def post_missing_def status_def findOne_def
        save_existing_def save_new_def Let_def split: option.splits)

text \<open>C4, amended, on a body with price 0 and change 0: the answer is not 400.\<close>

theorem post_400_iff_witness:
  "field zero_price_body ''price'' = JNum 0 \<and> field zero_price_body ''change'' = JNum 0 \<and>
   \<not> truthy (JNum 0) \<and>
   status (post_stocks stock_schema 1000 zero_price_body empty_store) \<noteq> 400"
  using post_400_iff [of stock_schema 1000 zero_price_body empty_store]
  by (simp add: zero_price_body_def field_def)

text \<open>
  C10: POST /api/stocks answers 400 to any body in which \<open>symbol\<close> or \<open>name\<close> is
  falsy, the empty string included, because the two fields are tested by truthiness;
  \<open>price\<close> and \<open>change\<close> are tested for being defined only, so with a truthy
  \<open>symbol\<close> and \<open>name\<close> a body whose \<open>price\<close> and \<open>change\<close> are defined, falsy
  or not, is not answered with 400.
\<close>

theorem post_rejects_falsy_symbol_or_name:
  "(\<not> truthy (field b ''symbol'') \<or> \<not> truthy (field b ''name'') \<longrightarrow>
      post_stocks V now b st = ((400, Error ''Missing required fields''), st))
   \<and> (truthy (field b ''symbol'') \<and> truthy (field b ''name'')
       \<and> field b ''price'' \<noteq> JUndefined \<and> field b ''change'' \<noteq> JUndefined \<longrightarrow>
      status (post_stocks V now b st) \<noteq> 400)"
proof -
  have rejected: "\<not> truthy (field b ''symbol'') \<or> \<not> truthy (field b ''name'') \<longrightarrow>
      post_stocks V now b st = ((400, Error ''Missing required fields''), st)"
    by (auto simp add: post_stocks_missing post_missing_def)
  have accepted: "truthy (field b ''symbol'') \<and> truthy (field b ''name'')
       \<and> field b ''price'' \<noteq> JUndefined \<and> field b ''change'' \<noteq> JUndefined \<longrightarrow>
      status (post_stocks V now b st) \<noteq> 400"
  proof
    assume h: "truthy (field b ''symbol'') \<and> truthy (field b ''name'')
       \<and> field b ''price'' \<noteq> JUndefined \<and> field b ''change'' \<noteq> JUndefined"
    then have nm: "\<not> post_missing b"
      by (simp add: post_missing_def)
    show "status (post_stocks V now b st) \<noteq> 400"
    proof (cases "connected st")
      case False
      then show ?thesis
        using nm by (simp add: post_stocks_down status_def)
    next
      case True
      show ?thesis
      proof (cases "find (\<lambda>x. symbol x = field b ''symbol'') (docs st)")
        case None
        then show ?thesis
          using post_stocks_not_found [OF nm True None, of V now]
          by (simp add: Let_def status_def)
      next
        case (Some d)
        then show ?thesis
          using post_stocks_found [OF nm True Some, of V now]
          by (simp add: Let_def status_def)
      qed
    qed
  qed
  from rejected accepted show ?thesis
    by blast
qed

text \<open>
  C10 on a body whose \<open>symbol\<close> is present and is the empty string (400), and on a body
  whose \<open>price\<close> and \<open>change\<close> are 0 (not 400).
\<close>

theorem post_rejects_falsy_symbol_or_name_witness:
  "field empty_symbol_body ''symbol'' = JStr [] \<and> \<not> truthy (JStr []) \<and>
   post_stocks stock_schema 1000 empty_symbol_body empty_store =
     ((400, Error ''Missing required fields''), empty_store) \<and>
   field zero_price_body ''price'' = JNum 0 \<and> \<not> truthy (JNum 0) \<and>
   status (post_stocks stock_schema 1000 zero_price_body empty_store) \<noteq> 400"
  using post_rejects_falsy_symbol_or_name [of empty_symbol_body stock_schema 1000 empty_store]
    post_rejects_falsy_symbol_or_name [of zero_price_body stock_schema 1000 empty_store]
  by (simp add: empty_symbol_body_def zero_price_body_def field_def)

section \<open>PUT /api/stocks/:symbol on an absent symbol\<close>

text \<open>
  C5: when the connected store holds no record for the symbol, PUT /api/stocks/:symbol
  with a body in which \<open>price\<close> and \<open>change\<close> are present returns 404 and leaves the
  store unchanged; no record is created.
\<close>

theorem put_absent_symbol_404:
  assumes "field b ''price'' \<noteq> JUndefined" and "field b ''change'' \<noteq> JUndefined"
    and "connected st"
    and "\<forall>d\<in>set (docs st). symbol d \<noteq> JStr (toUpperCase uc param)"
  shows "put_stock uc now param b st = ((404, Error ''Stock not found''), st)"
proof -
  have "find (\<lambda>x. symbol x = JStr (toUpperCase uc param)) (docs st) = None"
    using assms(4) by (simp add: find_None_all)
  with assms(1-3) show ?thesis
    by (rule put_stock_not_found)
qed

text \<open>C5 for MSFT on the store that holds AAPL only.\<close>

theorem put_absent_symbol_404_witness:
  "put_stock plain_upper 2000 ''msft'' update_body apple_store = ((404, Error ''Stock not found''), apple_store)"
  using put_absent_symbol_404 [where b = update_body and st = apple_store and uc = plain_upper
      and param = "''msft''" and now = 2000]
  by (simp add: example_defs field_def toUpperCase_def is_ascii_def upper_char_def)

section \<open>DELETE /api/stocks/:symbol\<close>

text \<open>
  C8: on a connected store, DELETE /api/stocks/:symbol for a symbol that has a record
  returns 200 with the message "Stock SYMBOL deleted successfully", SYMBOL being the
  upper-case symbol, and removes the record: the store has one record less, and where
  symbols are unique no record of that symbol is left. For a symbol without a record it
  returns 404 and the store is unchanged.
\<close>

theorem delete_stock_outcome:
  assumes "connected st"
  shows "((\<exists>d\<in>set (docs st). symbol d = JStr (toUpperCase uc param)) \<longrightarrow>
            delete_stock uc param st =
              ((200, Message (''Stock '' @ toUpperCase uc param @ '' deleted successfully'')),
               st\<lparr>docs := delete_first (\<lambda>x. symbol x = JStr (toUpperCase uc param)) (docs st)\<rparr>)
          \<and> Suc (length (docs (snd (delete_stock uc param st)))) = length (docs st)
          \<and> (distinct (map symbol (docs st)) \<longrightarrow>
               (\<forall>x\<in>set (docs (snd (delete_stock uc param st))). symbol x \<noteq> JStr (toUpperCase uc param))))
       \<and> ((\<forall>d\<in>set (docs st). symbol d \<noteq> JStr (toUpperCase uc param)) \<longrightarrow>
            delete_stock uc param st = ((404, Error ''Stock not found''), st))"
proof (cases "find (\<lambda>x. symbol x = JStr (toUpperCase uc param)) (docs st)")
  case None
  then have "\<forall>d\<in>set (docs st). symbol d \<noteq> JStr (toUpperCase uc param)"
    by (simp add: find_None_all)
  moreover have "delete_stock uc param st = ((404, Error ''Stock not found''), st)"
    using assms None by (rule delete_stock_not_found)
  ultimately show ?thesis by auto
next
  case (Some d)
  have ex: "\<exists>d\<in>set (docs st). symbol d = JStr (toUpperCase uc param)"
    using find_Some_mem [OF Some] find_Some_holds [OF Some] by auto
  have del: "delete_stock uc param st =
      ((200, Message (''Stock '' @ toUpperCase uc param @ '' deleted successfully'')),
       st\<lparr>docs := delete_first (\<lambda>x. symbol x = JStr (toUpperCase uc param)) (docs st)\<rparr>)"
    using assms Some by (rule delete_stock_found)
  have len: "Suc (length (docs (snd (delete_stock uc param st)))) = length (docs st)"
    using length_delete_first [OF Some] by (simp add: del)
  have gone: "distinct (map symbol (docs st)) \<Longrightarrow>
      \<forall>x\<in>set (docs (snd (delete_stock uc param st))). symbol x \<noteq> JStr (toUpperCase uc param)"
    using delete_first_distinct [of symbol "docs st" "JStr (toUpperCase uc param)"]
    by (simp add: del)
  from ex del len gone show ?thesis by blast
qed

text \<open>C8 for AAPL: deleted from the store that holds it, 404 on the empty store.\<close>

theorem delete_stock_outcome_witness:
  "delete_stock plain_upper ''aapl'' apple_store =
     ((200, Message ''Stock AAPL deleted successfully''), \<lparr>docs = [], connected = True\<rparr>)
   \<and> delete_stock plain_upper ''AAPL'' empty_store = ((404, Error ''Stock not found''), empty_store)"
  using delete_stock_outcome [where st = apple_store and uc = plain_upper and param = "''aapl''"]
    delete_stock_outcome [where st = empty_store and uc = plain_upper and param = "''AAPL''"]
  by (simp add: example_defs toUpperCase_def is_ascii_def upper_char_def)

section \<open>GET /api/search/:symbol: the responses\<close>

text \<open>
  C7: GET /api/search/:symbol returns 500 with the JSON error string "Stock not found or
  API error", leaving the store as it was, whenever the external quote fetch fails (axios
  rejects, or the response has no body to destructure) or the store operation fails (the
  store is not reachable, or it rejects the document to be saved). In every other case,
  that is on success, it returns 200 with the created or updated record, which it has
  stored: the record of the symbol with the fetched \<open>price\<close> and \<open>change\<close> and the
  current time, or a new record of the fetched fields.
\<close>

theorem search_stock_outcome:
  "(ax (''https://api.example.com/stocks/'' @ toUpperCase uc param) = None \<longrightarrow>
      search_stock uc V ax now param st = ((500, Error ''Stock not found or API error''), st))
   \<and> (fetch_quote ax (toUpperCase uc param) = Inl e \<longrightarrow>
      search_stock uc V ax now param st = ((500, Error ''Stock not found or API error''), st))
   \<and> (fetch_quote ax (toUpperCase uc param) = Inr (nm, pr, ch) \<longrightarrow>
      (let doc = (case find (\<lambda>x. symbol x = JStr (toUpperCase uc param)) (docs st) of
                    Some d \<Rightarrow> d\<lparr>price := pr, change := ch, lastUpdated := now\<rparr>
                  | None \<Rightarrow> \<lparr>symbol = JStr (toUpperCase uc param), name = nm, price = pr,
                              change = ch, lastUpdated = now\<rparr>)
       in (\<not> connected st \<or> \<not> V doc \<longrightarrow>
             search_stock uc V ax now param st =
               ((500, Error ''Stock not found or API error''), st))
        \<and> (connected st \<and> V doc \<longrightarrow>
             search_stock uc V ax now param st =
               ((200, Record doc),
                st\<lparr>docs := (case find (\<lambda>x. symbol x = JStr (toUpperCase uc param)) (docs st) of
                               Some d \<Rightarrow> update_first (\<lambda>x. symbol x = JStr (toUpperCase uc param))
                                           (\<lambda>x. doc) (docs st)
                             | None \<Rightarrow> docs st @ [doc])\<rparr>))))"
proof -
  let ?k = "JStr (toUpperCase uc param)"
  let ?fail = "((500, Error ''Stock not found or API error''), st)"
  have rejected: "ax (''https://api.example.com/stocks/'' @ toUpperCase uc param) = None \<longrightarrow>
      search_stock uc V ax now param st = ?fail"
    by (simp add: search_stock_fetch_failed fetch_quote_def)
  have failed: "fetch_quote ax (toUpperCase uc param) = Inl e \<longrightarrow>
      search_stock uc V ax now param st = ?fail"
    by (simp add: search_stock_fetch_failed)
  have fetched: "fetch_quote ax (toUpperCase uc param) = Inr (nm, pr, ch) \<longrightarrow>
      (let doc = (case find (\<lambda>x. symbol x = ?k) (docs st) of
                    Some d \<Rightarrow> d\<lparr>price := pr, change := ch, lastUpdated := now\<rparr>
                  | None \<Rightarrow> \<lparr>symbol = ?k, name = nm, price = pr,
                              change = ch, lastUpdated = now\<rparr>)
       in (\<not> connected st \<or> \<not> V doc \<longrightarrow> search_stock uc V ax now param st = ?fail)
        \<and> (connected st \<and> V doc \<longrightarrow>
             search_stock uc V ax now param st =
               ((200, Record doc),
                st\<lparr>docs := (case find (\<lambda>x. symbol x = ?k) (docs st) of
                               Some d \<Rightarrow> update_first (\<lambda>x. symbol x = ?k) (\<lambda>x. doc) (docs st)
                             | None \<Rightarrow> docs st @ [doc])\<rparr>)))"
  proof
    assume fq: "fetch_quote ax (toUpperCase uc param) = Inr (nm, pr, ch)"
    show "let doc = (case find (\<lambda>x. symbol x = ?k) (docs st) of
                    Some d \<Rightarrow> d\<lparr>price := pr, change := ch, lastUpdated := now\<rparr>
                  | None \<Rightarrow> \<lparr>symbol = ?k, name = nm, price = pr,
                              change = ch, lastUpdated = now\<rparr>)
       in (\<not> connected st \<or> \<not> V doc \<longrightarrow> search_stock uc V ax now param st = ?fail)
        \<and> (connected st \<and> V doc \<longrightarrow>
             search_stock uc V ax now param st =
               ((200, Record doc),
                st\<lparr>docs := (case find (\<lambda>x. symbol x = ?k) (docs st) of
                               Some d \<Rightarrow> update_first (\<lambda>x. symbol x = ?k) (\<lambda>x. doc) (docs st)
                             | None \<Rightarrow> docs st @ [doc])\<rparr>))"
    proof (cases "connected st")
      case False
      then show ?thesis
        by (simp add: search_stock_down Let_def)
    next
      case True
      show ?thesis
      proof (cases "find (\<lambda>x. symbol x = ?k) (docs st)")
        case None
        show ?thesis
          using search_stock_not_found [OF fq True None, of V now] True None
          by (simp add: Let_def)
      next
        case (Some d)
        show ?thesis
          using search_stock_found [OF fq True Some, of V now] True Some
          by (simp add: Let_def)
      qed
    qed
  qed
  from rejected failed fetched show ?thesis
    by blast
qed

text \<open>
  C7 under the example schema: the external service down (500); a complete quote for AAPL
  on the empty store (200, record created) and on the store that holds AAPL (200, record
  updated); a quote without \<open>name\<close> on the empty store, which the schema rejects (500).
\<close>

theorem search_stock_outcome_witness:
  "search_stock plain_upper stock_schema quote_down 2000 ''aapl'' apple_store =
       ((500, Error ''Stock not found or API error''), apple_store)
   \<and> search_stock plain_upper stock_schema quote_full 2000 ''aapl'' empty_store =
       ((200, Record \<lparr>symbol = JStr ''AAPL'', name = JStr ''Apple Inc.'', price = JNum 155,
                      change = JNum (- 1 / 2), lastUpdated = 2000\<rparr>),
        \<lparr>docs = [\<lparr>symbol = JStr ''AAPL'', name = JStr ''Apple Inc.'', price = JNum 155,
                  change = JNum (- 1 / 2), lastUpdated = 2000\<rparr>], connected = True\<rparr>)
   \<and> search_stock plain_upper stock_schema quote_full 2000 ''aapl'' apple_store =
       ((200, Record \<lparr>symbol = JStr ''AAPL'', name = JStr ''Apple'', price = JNum 155,
                      change = JNum (- 1 / 2), lastUpdated = 2000\<rparr>),
        \<lparr>docs = [\<lparr>symbol = JStr ''AAPL'', name = JStr ''Apple'', price = JNum 155,
                  change = JNum (- 1 / 2), lastUpdated = 2000\<rparr>], connected = True\<rparr>)
   \<and> search_stock plain_upper stock_schema quote_without_name 2000 ''aapl'' empty_store =
       ((500, Error ''Stock not found or API error''), empty_store)"
proof -
  have up: "toUpperCase plain_upper ''aapl'' = ''AAPL''"
    by (simp add: toUpperCase_def is_ascii_def upper_char_def)
  have down: "quote_down (''https://api.example.com/stocks/'' @ toUpperCase plain_upper ''aapl'') = None"
    by (simp add: quote_down_def)
  have full: "fetch_quote quote_full (toUpperCase plain_upper ''aapl'') =
      Inr (JStr ''Apple Inc.'', JNum 155, JNum (- 1 / 2))"
    by (simp add: up fetch_quote_def quote_full_def destructure_def field_def)
  have nameless: "fetch_quote quote_without_name (toUpperCase plain_upper ''aapl'') =
      Inr (JUndefined, JNum 155, JNum (- 1 / 2))"
    by (simp add: up fetch_quote_def quote_without_name_def destructure_def field_def)
  have one: "search_stock plain_upper stock_schema quote_down 2000 ''aapl'' apple_store =
       ((500, Error ''Stock not found or API error''), apple_store)"
    using search_stock_outcome [where ax = quote_down and uc = plain_upper and param = "''aapl''"
        and V = stock_schema and now = 2000 and st = apple_store] down
    by blast
  have two: "search_stock plain_upper stock_schema quote_full 2000 ''aapl'' empty_store =
       ((200, Record \<lparr>symbol = JStr ''AAPL'', name = JStr ''Apple Inc.'', price = JNum 155,
                      change = JNum (- 1 / 2), lastUpdated = 2000\<rparr>),
        \<lparr>docs = [\<lparr>symbol = JStr ''AAPL'', name = JStr ''Apple Inc.'', price = JNum 155,
                  change = JNum (- 1 / 2), lastUpdated = 2000\<rparr>], connected = True\<rparr>)"
    using search_stock_outcome [where ax = quote_full and uc = plain_upper and param = "''aapl''"
        and V = stock_schema and now = 2000 and st = empty_store
        and nm = "JStr ''Apple Inc.''" and pr = "JNum 155" and ch = "JNum (- 1 / 2)"] full
    by (simp add: up Let_def empty_store_def stock_schema_def)
  have three: "search_stock plain_upper stock_schema quote_full 2000 ''aapl'' apple_store =
       ((200, Record \<lparr>symbol = JStr ''AAPL'', name = JStr ''Apple'', price = JNum 155,
                      change = JNum (- 1 / 2), lastUpdated = 2000\<rparr>),
        \<lparr>docs = [\<lparr>symbol = JStr ''AAPL'', name = JStr ''Apple'', price = JNum 155,
                  change = JNum (- 1 / 2), lastUpdated = 2000\<rparr>], connected = True\<rparr>)"
    using search_stock_outcome [where ax = quote_full and uc = plain_upper and param = "''aapl''"
        and V = stock_schema and now = 2000 and st = apple_store
        and nm = "JStr ''Apple Inc.''" and pr = "JNum 155" and ch = "JNum (- 1 / 2)"] full
    by (simp add: up Let_def apple_store_def apple_doc_def stock_schema_def)
  have four: "search_stock plain_upper stock_schema quote_without_name 2000 ''aapl'' empty_store =
       ((500, Error ''Stock not found or API error''), empty_store)"
    using search_stock_outcome [where ax = quote_without_name and uc = plain_upper
        and param = "''aapl''" and V = stock_schema and now = 2000 and st = empty_store
        and nm = JUndefined and pr = "JNum 155" and ch = "JNum (- 1 / 2)"] nameless
    by (simp add: up Let_def empty_store_def stock_schema_def)
  from one two three four show ?thesis
    by blast
qed

section \<open>GET /api/search/:symbol: a response without the required fields\<close>

text \<open>
  Against C3 as stated: the external service answers for AAPL with a body that lacks
  \<open>name\<close>. The quote fetch succeeds, with \<open>name\<close> undefined, and the search route
  answers 200 and updates the stored AAPL record.
\<close>

theorem search_missing_name_counterexample:
  "fetch_quote quote_without_name ''AAPL'' = Inr (JUndefined, JNum 155, JNum (- 1 / 2))
   \<and> search_stock plain_upper stock_schema quote_without_name 2000 ''aapl'' apple_store =
      ((200, Record \<lparr>symbol = JStr ''AAPL'', name = JStr ''Apple'', price = JNum 155,
                     change = JNum (- 1 / 2), lastUpdated = 2000\<rparr>),
       \<lparr>docs = [\<lparr>symbol = JStr ''AAPL'', name = JStr ''Apple'', price = JNum 155,
                 change = JNum (- 1 / 2), lastUpdated = 2000\<rparr>], connected = True\<rparr>)"
  by (simp add: handler_defs example_defs Let_def)

text \<open>
  C3, amended: the quote fetch does not check the fields of the response. For a 2xx
  response whose body is an object, whichever of \<open>name\<close>, \<open>price\<close> and \<open>change\<close> it
  lacks, the fetch succeeds with the absent fields undefined, and the handler goes on to
  the store with them: it updates the existing record of the symbol, or creates one. The
  search route answers 500 exactly when the store is not reachable or rejects that
  document, and otherwise 200 with the document, which it has stored.
\<close>

theorem search_fields_unchecked:
  assumes "ax (''https://api.example.com/stocks/'' @ toUpperCase uc param) = Some (JObj kvs)"
  shows "fetch_quote ax (toUpperCase uc param) =
           Inr (field kvs ''name'', field kvs ''price'', field kvs ''change'')
     \<and> (let doc = (case find (\<lambda>x. symbol x = JStr (toUpperCase uc param)) (docs st) of
                      Some d \<Rightarrow> d\<lparr>price := field kvs ''price'', change := field kvs ''change'',
                                  lastUpdated := now\<rparr>
                    | None \<Rightarrow> \<lparr>symbol = JStr (toUpperCase uc param), name = field kvs ''name'',
                                price = field kvs ''price'', change = field kvs ''change'',
                                lastUpdated = now\<rparr>)
         in search_stock uc V ax now param st =
              (if connected st \<and> V doc
               then ((200, Record doc),
                     st\<lparr>docs := (case find (\<lambda>x. symbol x = JStr (toUpperCase uc param)) (docs st) of
                                    Some d \<Rightarrow> update_first (\<lambda>x. symbol x = JStr (toUpperCase uc param))
                                                (\<lambda>x. doc) (docs st)
                                  | None \<Rightarrow> docs st @ [doc])\<rparr>)
               else ((500, Error ''Stock not found or API error''), st)))"
proof -
  have fq: "fetch_quote ax (toUpperCase uc param) =
           Inr (field kvs ''name'', field kvs ''price'', field kvs ''change'')"
    using assms by (simp add: fetch_quote_def destructure_def)
  show ?thesis
  proof (cases "connected st")
    case False
    then show ?thesis
      using fq by (simp add: search_stock_down Let_def)
  next
    case True
    show ?thesis
    proof (cases "find (\<lambda>x. symbol x = JStr (toUpperCase uc param)) (docs st)")
      case None
      show ?thesis
        using fq search_stock_not_found [OF fq True None, of V now] True None
        by (simp add: Let_def)
    next
      case (Some d)
      show ?thesis
        using fq search_stock_found [OF fq True Some, of V now] True Some
        by (simp add: Let_def)
    qed
  qed
qed

text \<open>
  C3, amended, for the answer without \<open>name\<close> on an empty store: the example schema
  rejects the new document (500); a store without validation keeps it (200).
\<close>

theorem search_fields_unchecked_witness:
  "search_stock plain_upper stock_schema quote_without_name 2000 ''aapl'' empty_store =
     ((500, Error ''Stock not found or API error''), empty_store)
   \<and> search_stock plain_upper (\<lambda>d. True) quote_without_name 2000 ''aapl'' empty_store =
     ((200, Record \<lparr>symbol = JStr ''AAPL'', name = JUndefined, price = JNum 155,
                    change = JNum (- 1 / 2), lastUpdated = 2000\<rparr>),
      \<lparr>docs = [\<lparr>symbol = JStr ''AAPL'', name = JUndefined, price = JNum 155,
                change = JNum (- 1 / 2), lastUpdated = 2000\<rparr>], connected = True\<rparr>)"
  using search_fields_unchecked [where uc = plain_upper and ax = quote_without_name and param = "''aapl''"
      and kvs = "[(''price'', JNum 155), (''change'', JNum (- 1 / 2))]" and st = empty_store
      and now = 2000 and V = stock_schema]
    search_fields_unchecked [where uc = plain_upper and ax = quote_without_name and param = "''aapl''"
      and kvs = "[(''price'', JNum 155), (''change'', JNum (- 1 / 2))]" and st = empty_store
      and now = 2000 and V = "\<lambda>d. True"]
  by (simp add: example_defs field_def toUpperCase_def is_ascii_def upper_char_def Let_def)

section \<open>The timestamp of a record\<close>

text \<open>
  Against C9 as stated: a PUT handled at the clock reading 1000 on a record whose
  \<open>lastUpdated\<close> is 1000 succeeds and leaves \<open>lastUpdated\<close> equal to its previous value.
\<close>

theorem lastUpdated_not_increased_counterexample:
  "lastUpdated apple_doc = 1000
   \<and> put_stock plain_upper 1000 ''aapl'' update_body apple_store =
      ((200, Record \<lparr>symbol = JStr ''AAPL'', name = JStr ''Apple'', price = JNum 155,
                     change = JNum (- 1 / 2), lastUpdated = 1000\<rparr>),
       \<lparr>docs = [\<lparr>symbol = JStr ''AAPL'', name = JStr ''Apple'', price = JNum 155,
                 change = JNum (- 1 / 2), lastUpdated = 1000\<rparr>], connected = True\<rparr>)"
  by (simp add: handler_defs example_defs Let_def)

text \<open>
  C9, amended: each successful mutation of the record of a symbol (by POST upsert, PUT or
  search-fetch) sets its \<open>lastUpdated\<close> to the reading of the clock taken during the
  request; so \<open>lastUpdated\<close> strictly increases exactly when that reading is greater
  than the stored value.
\<close>

theorem mutation_sets_lastUpdated:
  assumes "find (\<lambda>x. symbol x = k) (docs st) = Some d"
  shows "(field b ''symbol'' = k \<and> status (post_stocks V now b st) = 200 \<longrightarrow>
            (\<exists>d'. find (\<lambda>x. symbol x = k) (docs (snd (post_stocks V now b st))) = Some d'
                  \<and> lastUpdated d' = now))
       \<and> (JStr (toUpperCase uc param) = k \<and> status (put_stock uc now param b st) = 200 \<longrightarrow>
            (\<exists>d'. find (\<lambda>x. symbol x = k) (docs (snd (put_stock uc now param b st))) = Some d'
                  \<and> lastUpdated d' = now))
       \<and> (JStr (toUpperCase uc param) = k \<and> status (search_stock uc V ax now param st) = 200 \<longrightarrow>
            (\<exists>d'. find (\<lambda>x. symbol x = k) (docs (snd (search_stock uc V ax now param st))) = Some d'
                  \<and> lastUpdated d' = now))"
proof -
  have kd: "symbol d = k"
    using assms by (rule find_Some_holds)
  have post: "field b ''symbol'' = k \<and> status (post_stocks V now b st) = 200 \<longrightarrow>
            (\<exists>d'. find (\<lambda>x. symbol x = k) (docs (snd (post_stocks V now b st))) = Some d'
                  \<and> lastUpdated d' = now)"
  proof
    assume h: "field b ''symbol'' = k \<and> status (post_stocks V now b st) = 200"
    let ?d = "d\<lparr>price := field b ''price'', change := field b ''change'', lastUpdated := now\<rparr>"
    have nm: "\<not> post_missing b"
      using h by (auto simp add: post_stocks_missing status_def)
    have up: "connected st"
      using h nm post_stocks_down [of b st V now] by (cases "connected st") (auto simp add: status_def)
    have f: "find (\<lambda>x. symbol x = field b ''symbol'') (docs st) = Some d"
      using assms h by simp
    have v: "V ?d"
      using h post_stocks_found [OF nm up f, of V now]
      by (auto simp add: Let_def status_def split: if_splits)
    have "find (\<lambda>x. symbol x = k) (docs (snd (post_stocks V now b st))) = Some ?d"
      using post_stocks_found [OF nm up f, of V now] v h kd assms
      by (simp add: Let_def find_update_first)
    then show "\<exists>d'. find (\<lambda>x. symbol x = k) (docs (snd (post_stocks V now b st))) = Some d'
                  \<and> lastUpdated d' = now"
      by simp
  qed
  have put: "JStr (toUpperCase uc param) = k \<and> status (put_stock uc now param b st) = 200 \<longrightarrow>
            (\<exists>d'. find (\<lambda>x. symbol x = k) (docs (snd (put_stock uc now param b st))) = Some d'
                  \<and> lastUpdated d' = now)"
  proof
    assume h: "JStr (toUpperCase uc param) = k \<and> status (put_stock uc now param b st) = 200"
    let ?f = "\<lambda>x. x\<lparr>price := field b ''price'', change := field b ''change'', lastUpdated := now\<rparr>"
    have p: "field b ''price'' \<noteq> JUndefined" and c: "field b ''change'' \<noteq> JUndefined"
      using h put_stock_missing [where b = b and uc = uc and now = now and param = param and st = st] by (auto simp add: status_def)
    have up: "connected st"
      using h p c put_stock_down [where b = b and st = st and uc = uc and now = now and param = param]
      by (cases "connected st") (auto simp add: status_def)
    have f: "find (\<lambda>x. symbol x = JStr (toUpperCase uc param)) (docs st) = Some d"
      using assms h by simp
    have "find (\<lambda>x. symbol x = k) (docs (snd (put_stock uc now param b st))) = Some (?f d)"
      using put_stock_found [OF p c up f, of now] h kd assms
      by (simp add: find_update_first)
    then show "\<exists>d'. find (\<lambda>x. symbol x = k) (docs (snd (put_stock uc now param b st))) = Some d'
                  \<and> lastUpdated d' = now"
      by simp
  qed
  have search: "JStr (toUpperCase uc param) = k \<and> status (search_stock uc V ax now param st) = 200 \<longrightarrow>
            (\<exists>d'. find (\<lambda>x. symbol x = k) (docs (snd (search_stock uc V ax now param st))) = Some d'
                  \<and> lastUpdated d' = now)"
  proof
    assume h: "JStr (toUpperCase uc param) = k \<and> status (search_stock uc V ax now param st) = 200"
    have up: "connected st"
      using h search_stock_down [where st = st and uc = uc and V = V and ax = ax and now = now and param = param]
      by (cases "connected st") (auto simp add: status_def)
    obtain nm pr ch where fq: "fetch_quote ax (toUpperCase uc param) = Inr (nm, pr, ch)"
      using h by (cases "fetch_quote ax (toUpperCase uc param)")
        (auto simp add: search_stock_fetch_failed status_def)
    let ?d = "d\<lparr>price := pr, change := ch, lastUpdated := now\<rparr>"
    have f: "find (\<lambda>x. symbol x = JStr (toUpperCase uc param)) (docs st) = Some d"
      using assms h by simp
    have v: "V ?d"
      using h search_stock_found [OF fq up f, of V now]
      by (auto simp add: Let_def status_def split: if_splits)
    have "find (\<lambda>x. symbol x = k) (docs (snd (search_stock uc V ax now param st))) = Some ?d"
      using search_stock_found [OF fq up f, of V now] v h kd assms
      by (simp add: Let_def find_update_first)
    then show "\<exists>d'. find (\<lambda>x. symbol x = k) (docs (snd (search_stock uc V ax now param st))) = Some d'
                  \<and> lastUpdated d' = now"
      by simp
  qed
  from post put search show ?thesis by blast
qed

text \<open>C9, amended, for a PUT at the clock reading 2000 on the AAPL record of time 1000.\<close>

theorem mutation_sets_lastUpdated_witness:
  "find (\<lambda>x. symbol x = JStr ''AAPL'') (docs apple_store) = Some apple_doc
   \<and> lastUpdated apple_doc = 1000
   \<and> status (put_stock plain_upper 2000 ''aapl'' update_body apple_store) = 200
   \<and> (\<exists>d'. find (\<lambda>x. symbol x = JStr ''AAPL'')
              (docs (snd (put_stock plain_upper 2000 ''aapl'' update_body apple_store))) = Some d'
           \<and> lastUpdated d' = 2000)"
proof -
  have f: "find (\<lambda>x. symbol x = JStr ''AAPL'') (docs apple_store) = Some apple_doc"
    by (simp add: example_defs)
  have u: "JStr (toUpperCase plain_upper ''aapl'') = JStr ''AAPL''"
    by (simp add: toUpperCase_def is_ascii_def upper_char_def)
  have s: "status (put_stock plain_upper 2000 ''aapl'' update_body apple_store) = 200"
    by (simp add: handler_defs example_defs)
  have l: "lastUpdated apple_doc = 1000"
    by (simp add: apple_doc_def)
  from mutation_sets_lastUpdated [OF f, where b = update_body and V = stock_schema and now = 2000
      and uc = plain_upper and param = "''aapl''" and ax = quote_down] u s
  have "\<exists>d'. find (\<lambda>x. symbol x = JStr ''AAPL'')
              (docs (snd (put_stock plain_upper 2000 ''aapl'' update_body apple_store))) = Some d'
           \<and> lastUpdated d' = 2000"
    by blast
  with f l s show ?thesis by blast
qed

section \<open>POST /api/stocks twice\<close>

lemma post_stocks_first:
  assumes "\<not> post_missing b" and "status (post_stocks V t1 b st) \<noteq> 500"
  shows "\<exists>r. connected (snd (post_stocks V t1 b st))
          \<and> find (\<lambda>x. symbol x = field b ''symbol'') (docs (snd (post_stocks V t1 b st))) = Some r
          \<and> price r = field b ''price'' \<and> change r = field b ''change''
          \<and> lastUpdated r = t1"
proof -
  let ?P = "\<lambda>x. symbol x = field b ''symbol''"
  have up: "connected st"
    using assms post_stocks_down [of b st V t1] by (cases "connected st") (auto simp add: status_def)
  show ?thesis
  proof (cases "find ?P (docs st)")
    case None
    let ?d = "\<lparr>symbol = field b ''symbol'', name = field b ''name'', price = field b ''price'',
               change = field b ''change'', lastUpdated = t1\<rparr>"
    have v: "V ?d"
      using assms(2) post_stocks_not_found [OF assms(1) up None, of V t1]
      by (auto simp add: Let_def status_def split: if_splits)
    have "find ?P (docs st @ [?d]) = Some ?d"
      using None by (simp add: find_append_new)
    then show ?thesis
      using post_stocks_not_found [OF assms(1) up None, of V t1] v up
      by (simp add: Let_def)
  next
    case (Some d)
    let ?d = "d\<lparr>price := field b ''price'', change := field b ''change'', lastUpdated := t1\<rparr>"
    have k: "symbol d = field b ''symbol''"
      using Some by (rule find_Some_holds)
    have v: "V ?d"
      using assms(2) post_stocks_found [OF assms(1) up Some, of V t1]
      by (auto simp add: Let_def status_def split: if_splits)
    have "find ?P (update_first ?P (\<lambda>x. ?d) (docs st)) = Some ?d"
      using Some k by (simp add: find_update_first)
    then show ?thesis
      using post_stocks_found [OF assms(1) up Some, of V t1] v up
      by (simp add: Let_def)
  qed
qed

lemma post_stocks_again:
  assumes "\<not> post_missing b" and "connected st"
    and "find (\<lambda>x. symbol x = field b ''symbol'') (docs st) = Some r"
    and "price r = field b ''price''" and "change r = field b ''change''"
    and "status (post_stocks V t2 b st) \<noteq> 500"
  shows "post_stocks V t2 b st =
     ((200, Record (r\<lparr>lastUpdated := t2\<rparr>)),
      st\<lparr>docs := update_first (\<lambda>x. symbol x = field b ''symbol'')
                   (\<lambda>x. x\<lparr>lastUpdated := t2\<rparr>) (docs st)\<rparr>)"
proof -
  let ?P = "\<lambda>x. symbol x = field b ''symbol''"
  let ?d = "r\<lparr>price := field b ''price'', change := field b ''change'', lastUpdated := t2\<rparr>"
  have eq: "?d = r\<lparr>lastUpdated := t2\<rparr>"
    using assms(4,5) by (cases r) auto
  have v: "V ?d"
    using assms(6) post_stocks_found [OF assms(1-3), of V t2]
    by (auto simp add: Let_def status_def split: if_splits)
  have "update_first ?P (\<lambda>x. ?d) (docs st) = update_first ?P (\<lambda>x. x\<lparr>lastUpdated := t2\<rparr>) (docs st)"
    using assms(3) eq by (rule update_first_agree)
  then show ?thesis
    using post_stocks_found [OF assms(1-3), of V t2] v eq
    by (simp add: Let_def)
qed

lemma post_stocks_twice_store:
  assumes nm: "\<not> post_missing b"
    and s1: "status (post_stocks V t1 b st) \<noteq> 500"
    and s2: "status (post_stocks V t2 b (snd (post_stocks V t1 b st))) \<noteq> 500"
  shows "snd (post_stocks V t2 b (snd (post_stocks V t1 b st))) = snd (post_stocks V t2 b st)"
proof -
  let ?P = "\<lambda>x. symbol x = field b ''symbol''"
  have up: "connected st"
    using nm s1 post_stocks_down [of b st V t1] by (cases "connected st") (auto simp add: status_def)
  show ?thesis
  proof (cases "find ?P (docs st)")
    case None
    let ?n = "\<lambda>t. \<lparr>symbol = field b ''symbol'', name = field b ''name'', price = field b ''price'',
               change = field b ''change'', lastUpdated = t\<rparr>"
    have v1: "V (?n t1)"
      using s1 post_stocks_not_found [OF nm up None, of V t1]
      by (auto simp add: Let_def status_def split: if_splits)
    have first: "post_stocks V t1 b st = ((201, Record (?n t1)), st\<lparr>docs := docs st @ [?n t1]\<rparr>)"
      using post_stocks_not_found [OF nm up None, of V t1] v1 by (simp add: Let_def)
    have f1: "find ?P (docs (st\<lparr>docs := docs st @ [?n t1]\<rparr>)) = Some (?n t1)"
      using None by (simp add: find_append_new)
    have up1: "connected (st\<lparr>docs := docs st @ [?n t1]\<rparr>)"
      using up by simp
    have v2: "V (?n t2)"
      using s2 post_stocks_found [OF nm up1 f1, of V t2]
      by (auto simp add: first Let_def status_def split: if_splits)
    have "snd (post_stocks V t2 b (st\<lparr>docs := docs st @ [?n t1]\<rparr>)) = st\<lparr>docs := docs st @ [?n t2]\<rparr>"
      using post_stocks_found [OF nm up1 f1, of V t2] v2 None
      by (simp add: Let_def update_first_append_new)
    moreover have "snd (post_stocks V t2 b st) = st\<lparr>docs := docs st @ [?n t2]\<rparr>"
      using post_stocks_not_found [OF nm up None, of V t2] v2 by (simp add: Let_def)
    ultimately show ?thesis
      by (simp add: first)
  next
    case (Some d)
    let ?d = "\<lambda>t. d\<lparr>price := field b ''price'', change := field b ''change'', lastUpdated := t\<rparr>"
    have k: "symbol d = field b ''symbol''"
      using Some by (rule find_Some_holds)
    have v1: "V (?d t1)"
      using s1 post_stocks_found [OF nm up Some, of V t1]
      by (auto simp add: Let_def status_def split: if_splits)
    let ?st1 = "st\<lparr>docs := update_first ?P (\<lambda>x. ?d t1) (docs st)\<rparr>"
    have first: "post_stocks V t1 b st = ((200, Record (?d t1)), ?st1)"
      using post_stocks_found [OF nm up Some, of V t1] v1 by (simp add: Let_def)
    have f1: "find ?P (docs ?st1) = Some (?d t1)"
      using Some k by (simp add: find_update_first)
    have up1: "connected ?st1"
      using up by simp
    have v2: "V (?d t2)"
      using s2 post_stocks_found [OF nm up1 f1, of V t2]
      by (auto simp add: first Let_def status_def split: if_splits)
    have "update_first ?P (\<lambda>x. ?d t2) (update_first ?P (\<lambda>x. ?d t1) (docs st)) =
          update_first ?P (\<lambda>x. ?d t2) (docs st)"
      using update_first_twice [OF Some, of "\<lambda>x. ?d t1" "\<lambda>x. ?d t2"] k by simp
    then have "snd (post_stocks V t2 b ?st1) = st\<lparr>docs := update_first ?P (\<lambda>x. ?d t2) (docs st)\<rparr>"
      using post_stocks_found [OF nm up1 f1, of V t2] v2
      by (simp add: Let_def)
    moreover have "snd (post_stocks V t2 b st) = st\<lparr>docs := update_first ?P (\<lambda>x. ?d t2) (docs st)\<rparr>"
      using post_stocks_found [OF nm up Some, of V t2] v2 by (simp add: Let_def)
    ultimately show ?thesis
      by (simp add: first)
  qed
qed

text \<open>
  Against C6 as stated: on the empty store, the same payload posted at the clock reading
  1000 and again at 2000 leaves a record with \<open>lastUpdated\<close> 2000, not the state that
  posting it once had left.
\<close>

theorem post_twice_counterexample:
  "snd (post_stocks stock_schema 1000 apple_body empty_store) =
     \<lparr>docs = [\<lparr>symbol = JStr ''AAPL'', name = JStr ''Apple'', price = JNum 150,
               change = JNum (6 / 5), lastUpdated = 1000\<rparr>], connected = True\<rparr>
   \<and> snd (post_stocks stock_schema 2000 apple_body
            (snd (post_stocks stock_schema 1000 apple_body empty_store))) =
     \<lparr>docs = [\<lparr>symbol = JStr ''AAPL'', name = JStr ''Apple'', price = JNum 150,
               change = JNum (6 / 5), lastUpdated = 2000\<rparr>], connected = True\<rparr>"
  by (simp add: handler_defs example_defs Let_def)

text \<open>
  C6, amended: posting the same valid payload twice in sequence, both calls succeeding,
  yields the same final stored state as posting it once at the time of the second call;
  against the state after the first call only the \<open>lastUpdated\<close> of the record differs,
  refreshed to the time of the second call. The second call updates the existing record in
  place, returning 200, and creates no duplicate: the number of records is unchanged.
\<close>

theorem post_twice:
  assumes "truthy (field b ''symbol'')" and "truthy (field b ''name'')"
    and "field b ''price'' \<noteq> JUndefined" and "field b ''change'' \<noteq> JUndefined"
    and "status (post_stocks V t1 b st) \<noteq> 500"
    and "status (post_stocks V t2 b (snd (post_stocks V t1 b st))) \<noteq> 500"
  shows "status (post_stocks V t2 b (snd (post_stocks V t1 b st))) = 200
     \<and> snd (post_stocks V t2 b (snd (post_stocks V t1 b st))) = snd (post_stocks V t2 b st)
     \<and> snd (post_stocks V t2 b (snd (post_stocks V t1 b st))) =
         (snd (post_stocks V t1 b st))
           \<lparr>docs := update_first (\<lambda>x. symbol x = field b ''symbol'')
                      (\<lambda>x. x\<lparr>lastUpdated := t2\<rparr>) (docs (snd (post_stocks V t1 b st)))\<rparr>
     \<and> length (docs (snd (post_stocks V t2 b (snd (post_stocks V t1 b st))))) =
         length (docs (snd (post_stocks V t1 b st)))"
proof -
  let ?P = "\<lambda>x. symbol x = field b ''symbol''"
  let ?st1 = "snd (post_stocks V t1 b st)"
  have nm: "\<not> post_missing b"
    using assms(1-4) by (simp add: post_missing_def)
  from post_stocks_first [OF nm assms(5)]
  obtain r where up1: "connected ?st1" and f1: "find ?P (docs ?st1) = Some r"
    and pr: "price r = field b ''price''" and ch: "change r = field b ''change''"
    by blast
  have second: "post_stocks V t2 b ?st1 =
     ((200, Record (r\<lparr>lastUpdated := t2\<rparr>)),
      ?st1\<lparr>docs := update_first ?P (\<lambda>x. x\<lparr>lastUpdated := t2\<rparr>) (docs ?st1)\<rparr>)"
    using nm up1 f1 pr ch assms(6) by (rule post_stocks_again)
  have "status (post_stocks V t2 b ?st1) = 200"
    by (simp add: second status_def)
  moreover have "snd (post_stocks V t2 b ?st1) = snd (post_stocks V t2 b st)"
    using nm assms(5,6) by (rule post_stocks_twice_store)
  moreover have "snd (post_stocks V t2 b ?st1) =
      ?st1\<lparr>docs := update_first ?P (\<lambda>x. x\<lparr>lastUpdated := t2\<rparr>) (docs ?st1)\<rparr>"
    by (simp add: second)
  moreover have "length (docs (snd (post_stocks V t2 b ?st1))) = length (docs ?st1)"
    by (simp add: second length_update_first)
  ultimately show ?thesis
    by blast
qed

text \<open>C6, amended, for the payload of the spec's scenario posted on the empty store.\<close>

theorem post_twice_witness:
  "status (post_stocks stock_schema 2000 apple_body
            (snd (post_stocks stock_schema 1000 apple_body empty_store))) = 200
   \<and> length (docs (snd (post_stocks stock_schema 2000 apple_body
            (snd (post_stocks stock_schema 1000 apple_body empty_store))))) =
     length (docs (snd (post_stocks stock_schema 1000 apple_body empty_store)))"
proof -
  have s1: "status (post_stocks stock_schema 1000 apple_body empty_store) \<noteq> 500"
    by (simp add: handler_defs example_defs Let_def)
  have s2: "status (post_stocks stock_schema 2000 apple_body
            (snd (post_stocks stock_schema 1000 apple_body empty_store))) \<noteq> 500"
    by (simp add: handler_defs example_defs Let_def)
  have b: "truthy (field apple_body ''symbol'')" "truthy (field apple_body ''name'')"
      "field apple_body ''price'' \<noteq> JUndefined" "field apple_body ''change'' \<noteq> JUndefined"
    by (simp_all add: apple_body_def field_def)
  from post_twice [OF b s1 s2] show ?thesis
    by blast
qed

section \<open>Symbols stay unique\<close>

text \<open>
  No handler run on a store with one record per symbol leaves two records of one symbol.
\<close>

lemma post_stocks_distinct:
  assumes "distinct (map symbol (docs st))"
  shows "distinct (map symbol (docs (snd (post_stocks V now b st))))"
proof (cases "post_missing b")
  case True
  then show ?thesis
    using assms by (simp add: post_stocks_missing)
next
  case nm: False
  show ?thesis
  proof (cases "connected st")
    case False
    then show ?thesis
      using assms nm by (simp add: post_stocks_down)
  next
  case up: True
  show ?thesis
  proof (cases "find (\<lambda>x. symbol x = field b ''symbol'') (docs st)")
    case None
    then have "field b ''symbol'' \<notin> symbol ` set (docs st)"
      by (auto simp add: find_None_all)
    then show ?thesis
      using assms post_stocks_not_found [OF nm up None, of V now]
      by (simp add: Let_def)
  next
    case (Some d)
    have k: "symbol d = field b ''symbol''"
      using Some by (rule find_Some_holds)
    have "map symbol (update_first (\<lambda>x. symbol x = field b ''symbol'')
            (\<lambda>x. d\<lparr>price := field b ''price'', change := field b ''change'',
                     lastUpdated := now\<rparr>) (docs st)) = map symbol (docs st)"
      by (rule map_update_first_keeps) (simp add: k)
    then show ?thesis
      using assms post_stocks_found [OF nm up Some, of V now]
      by (simp add: Let_def)
  qed
  qed
qed

lemma put_stock_distinct:
  assumes "distinct (map symbol (docs st))"
  shows "distinct (map symbol (docs (snd (put_stock uc now param b st))))"
  using assms
  by (auto simp add: put_stock_def put_try_def findOneAndUpdate_def map_update_first_keeps
      split: option.splits)

lemma delete_stock_distinct:
  assumes "distinct (map symbol (docs st))"
  shows "distinct (map symbol (docs (snd (delete_stock uc param st))))"
  using assms
  by (auto simp add: delete_stock_def delete_try_def findOneAndDelete_def distinct_delete_first
      split: option.splits)

lemma search_stock_distinct:
  assumes "distinct (map symbol (docs st))"
  shows "distinct (map symbol (docs (snd (search_stock uc V ax now param st))))"
proof (cases "fetch_quote ax (toUpperCase uc param)")
  case (Inl e)
  then show ?thesis
    using assms by (simp add: search_stock_fetch_failed)
next
  case (Inr q)
  obtain nm pr ch where q: "q = (nm, pr, ch)" by (cases q) auto
  show ?thesis
  proof (cases "connected st")
    case False
    then show ?thesis using assms by (simp add: search_stock_down)
  next
    case True
    show ?thesis
    proof (cases "find (\<lambda>x. symbol x = JStr (toUpperCase uc param)) (docs st)")
      case None
      then have "JStr (toUpperCase uc param) \<notin> symbol ` set (docs st)"
        by (auto simp add: find_None_all)
      then show ?thesis
        using assms search_stock_not_found [OF Inr [unfolded q] True None, of V now]
        by (simp add: Let_def)
    next
      case (Some d)
      have k: "symbol d = JStr (toUpperCase uc param)"
        using Some by (rule find_Some_holds)
      have "map symbol (update_first (\<lambda>x. symbol x = JStr (toUpperCase uc param))
              (\<lambda>x. d\<lparr>price := pr, change := ch, lastUpdated := now\<rparr>) (docs st)) =
            map symbol (docs st)"
        by (rule map_update_first_keeps) (simp add: k)
      then show ?thesis
        using assms search_stock_found [OF Inr [unfolded q] True Some, of V now]
        by (simp add: Let_def)
    qed
  qed
qed

end
